theory Spec2Isabelle
  imports Main
begin

section \<open>The feature flag store of \<^verbatim>\<open>main.go\<close>\<close>

text \<open>
  A Go \<^verbatim>\<open>error\<close> value is \<open>error option\<close>, \<open>None\<close> being \<^verbatim>\<open>nil\<close>. The only errors
  this program can produce come from \<^verbatim>\<open>json.Decoder.Decode\<close>: \<open>ScanError\<close> stands for every
  failure to read one complete JSON value off the body (\<^verbatim>\<open>io.EOF\<close> on an empty body, a
  \<^verbatim>\<open>*json.SyntaxError\<close>, \<^verbatim>\<open>io.ErrUnexpectedEOF\<close>), and \<open>UnmarshalTypeError\<close> keeps the
  \<^verbatim>\<open>Value\<close> field of Go's \<^verbatim>\<open>*json.UnmarshalTypeError\<close>, the description of the JSON value
  that did not fit its target. \<open>OtherError\<close> is an error value of any other type, by its
  message: what another implementation of the service interface may return.
\<close>

datatype error = ScanError | UnmarshalTypeError string | OtherError string

subsection \<open>The store and its two methods\<close>

text \<open>
  \<^verbatim>\<open>featureFlagService\<close> holds the map \<^verbatim>\<open>flags\<close> and the lock \<^verbatim>\<open>mu\<close>. The store is built
  once, in \<^verbatim>\<open>main\<close>, with \<^verbatim>\<open>make(map[string]bool)\<close>, so \<^verbatim>\<open>flags\<close> is a map that is never
  \<^verbatim>\<open>nil\<close>. The model is sequential: both methods take the lock on entry and release it
  on return (\<^verbatim>\<open>defer\<close>), every call finds it free, and \<^verbatim>\<open>mu\<close> is not part of the state.
\<close>

record featureFlagService =
  flags :: "string \<rightharpoonup> bool"

text \<open>\<^verbatim>\<open>svc := &featureFlagService{flags: make(map[string]bool)}\<close> in \<^verbatim>\<open>main\<close>.\<close>

definition newFeatureFlagService :: featureFlagService where
  "newFeatureFlagService = \<lparr>flags = Map.empty\<rparr>"

text \<open>
  \<^verbatim>\<open>val, exists := s.flags[key]; if !exists { return false, nil }; return val, nil\<close>.
  A method returns its results and the store it leaves behind; \<open>'c\<close> is the type of
  \<^verbatim>\<open>context.Context\<close> values.
\<close>

definition featureFlagService_GetFeatureFlag ::
  "'c \<Rightarrow> string \<Rightarrow> featureFlagService \<Rightarrow> (bool \<times> error option) \<times> featureFlagService" where
  "featureFlagService_GetFeatureFlag ctx key s =
     (case flags s key of
        None \<Rightarrow> ((False, None), s)
      | Some val \<Rightarrow> ((val, None), s))"

text \<open>\<^verbatim>\<open>s.flags[key] = value; return nil\<close>.\<close>

definition featureFlagService_SetFeatureFlag ::
  "'c \<Rightarrow> string \<Rightarrow> bool \<Rightarrow> featureFlagService \<Rightarrow> error option \<times> featureFlagService" where
  "featureFlagService_SetFeatureFlag ctx key value s =
     (None, s\<lparr>flags := (flags s)(key \<mapsto> value)\<rparr>)"

text \<open>
  A sequential history of calls on the store: each call runs to completion before the
  next starts, and the store it leaves is the one the next call finds.
\<close>

datatype 'c call = GetCall 'c string | SetCall 'c string bool

fun runCall :: "'c call \<Rightarrow> featureFlagService \<Rightarrow> featureFlagService" where
  "runCall (GetCall ctx key) s = snd (featureFlagService_GetFeatureFlag ctx key s)"
| "runCall (SetCall ctx key value) s = snd (featureFlagService_SetFeatureFlag ctx key value s)"

fun runCalls :: "'c call list \<Rightarrow> featureFlagService \<Rightarrow> featureFlagService" where
  "runCalls [] s = s"
| "runCalls (c # cs) s = runCalls cs (runCall c s)"

text \<open>\<open>writes key c\<close>: the call \<open>c\<close> is a \<^verbatim>\<open>SetFeatureFlag\<close> of \<open>key\<close>.\<close>

fun writes :: "string \<Rightarrow> 'c call \<Rightarrow> bool" where
  "writes key (GetCall ctx k) = False"
| "writes key (SetCall ctx k value) = (k = key)"

subsection \<open>The service interface, requests and responses\<close>

text \<open>
  \<^verbatim>\<open>FeatureFlagService\<close> is an interface: a table of two methods over the state \<open>'s\<close> of
  whatever implements it. The endpoints are written against the interface.
\<close>

record ('c, 's) FeatureFlagService =
  GetFeatureFlag :: "'c \<Rightarrow> string \<Rightarrow> 's \<Rightarrow> (bool \<times> error option) \<times> 's"
  SetFeatureFlag :: "'c \<Rightarrow> string \<Rightarrow> bool \<Rightarrow> 's \<Rightarrow> error option \<times> 's"

text \<open>The method set of \<^verbatim>\<open>*featureFlagService\<close>, the implementation \<^verbatim>\<open>main\<close> installs.\<close>

definition featureFlagService_methods :: "('c, featureFlagService) FeatureFlagService" where
  "featureFlagService_methods =
     \<lparr>GetFeatureFlag = featureFlagService_GetFeatureFlag,
      SetFeatureFlag = featureFlagService_SetFeatureFlag\<rparr>"

record getFeatureFlagRequest =
  Key :: string

record getFeatureFlagResponse =
  Value :: bool

record setFeatureFlagRequest =
  Key :: string
  Value :: bool

record setFeatureFlagResponse =
  Success :: bool

text \<open>
  The values of type \<^verbatim>\<open>interface{}\<close> that flow between decoder, endpoint and encoder,
  by their dynamic type.
\<close>

datatype any =
    AnyGetRequest getFeatureFlagRequest
  | AnySetRequest setFeatureFlagRequest
  | AnyGetResponse getFeatureFlagResponse
  | AnySetResponse setFeatureFlagResponse

subsection \<open>Endpoints\<close>

text \<open>
  The type assertion \<^verbatim>\<open>request.(getFeatureFlagRequest)\<close> panics on a value of another
  dynamic type; an endpoint either panics or returns its two results and the state.
\<close>

datatype 'a outcome = Panics | Returns 'a

type_synonym ('c, 's) endpoint = "'c \<Rightarrow> any \<Rightarrow> 's \<Rightarrow> ((any \<times> error option) \<times> 's) outcome"

text \<open>
  \<^verbatim>\<open>req := request.(getFeatureFlagRequest); val, _ := svc.GetFeatureFlag(ctx, req.Key);
  return getFeatureFlagResponse{Value: val}, nil\<close>.
\<close>

definition makeGetFeatureFlagEndpoint :: "('c, 's) FeatureFlagService \<Rightarrow> ('c, 's) endpoint" where
  "makeGetFeatureFlagEndpoint svc ctx request st =
     (case request of
        AnyGetRequest req \<Rightarrow>
          (case GetFeatureFlag svc ctx (getFeatureFlagRequest.Key req) st of
             ((val, _), st') \<Rightarrow>
               Returns ((AnyGetResponse \<lparr>getFeatureFlagResponse.Value = val\<rparr>, None), st'))
      | _ \<Rightarrow> Panics)"

text \<open>
  \<^verbatim>\<open>req := request.(setFeatureFlagRequest); svc.SetFeatureFlag(ctx, req.Key, req.Value);
  return setFeatureFlagResponse{Success: true}, nil\<close>.
\<close>

definition makeSetFeatureFlagEndpoint :: "('c, 's) FeatureFlagService \<Rightarrow> ('c, 's) endpoint" where
  "makeSetFeatureFlagEndpoint svc ctx request st =
     (case request of
        AnySetRequest req \<Rightarrow>
          (case SetFeatureFlag svc ctx (setFeatureFlagRequest.Key req)
                  (setFeatureFlagRequest.Value req) st of
             (_, st') \<Rightarrow> Returns ((AnySetResponse \<lparr>Success = True\<rparr>, None), st'))
      | _ \<Rightarrow> Panics)"

subsection \<open>Decoding request bodies: \<^verbatim>\<open>json.NewDecoder(r.Body).Decode(&request)\<close>\<close>

text \<open>
  \<^verbatim>\<open>Decode\<close> works in two phases. It first reads the next complete JSON value off the
  stream and returns an error if there is none (empty body, syntax error); the struct is
  not touched then. A request body is modelled by the result of that phase.
\<close>

datatype json =
    JNull
  | JBool bool
  | JNumber string
  | JString string
  | JArray "json list"
  | JObject "(string \<times> json) list"

datatype body = Unreadable | Scanned json

text \<open>
  The second phase stores the value into the struct, as \<^verbatim>\<open>encoding/json\<close> documents for
  \<^verbatim>\<open>Unmarshal\<close>: a JSON value that does not fit its target is skipped and the earliest
  such mismatch is returned as an \<^verbatim>\<open>UnmarshalTypeError\<close> once the value has been gone
  through; \<^verbatim>\<open>null\<close> has no effect on a string, a bool or a struct; an object member is
  stored into the field whose \<^verbatim>\<open>json\<close> tag equals its name, or else into the first field
  whose tag equals it after case folding; members that match no field are ignored, and
  fields that no member matches keep their value.
\<close>

fun valueKind :: "json \<Rightarrow> string" where
  "valueKind JNull = ''null''"
| "valueKind (JBool b) = ''bool''"
| "valueKind (JNumber n) = ''number''"
| "valueKind (JString x) = ''string''"
| "valueKind (JArray vs) = ''array''"
| "valueKind (JObject ms) = ''object''"

definition saveError :: "error \<Rightarrow> error option \<Rightarrow> error option" where
  "saveError err saved = (case saved of None \<Rightarrow> Some err | Some e \<Rightarrow> Some e)"

fun storeString :: "json \<Rightarrow> string \<times> error option \<Rightarrow> string \<times> error option" where
  "storeString JNull (s, saved) = (s, saved)"
| "storeString (JString x) (s, saved) = (x, saved)"
| "storeString v (s, saved) = (s, saveError (UnmarshalTypeError (valueKind v)) saved)"

fun storeBool :: "json \<Rightarrow> bool \<times> error option \<Rightarrow> bool \<times> error option" where
  "storeBool JNull (b, saved) = (b, saved)"
| "storeBool (JBool x) (b, saved) = (x, saved)"
| "storeBool v (b, saved) = (b, saveError (UnmarshalTypeError (valueKind v)) saved)"

text \<open>
  \<open>foldName\<close> is the case folding of member names, a parameter of the decoders: Go folds
  ASCII letters and, by its Unicode tables, some letters outside ASCII. \<open>foldASCII\<close> is
  its ASCII part.
\<close>

definition findField :: "(string \<Rightarrow> string) \<Rightarrow> string list \<Rightarrow> string \<Rightarrow> string option" where
  "findField foldName tags name =
     (case find (\<lambda>f. f = name) tags of
        Some f \<Rightarrow> Some f
      | None \<Rightarrow> find (\<lambda>f. foldName f = foldName name) tags)"

definition upperASCII :: "char \<Rightarrow> char" where
  "upperASCII c =
     (let n = (of_char c :: nat) in if 97 \<le> n \<and> n \<le> 122 then char_of (n - 32) else c)"

definition foldASCII :: "string \<Rightarrow> string" where
  "foldASCII = map upperASCII"

text \<open>
  One member of an object, stored into a \<^verbatim>\<open>getFeatureFlagRequest\<close>, whose only field
  is tagged \<^verbatim>\<open>key\<close>; then all the members, one after the other.
\<close>

fun memberGet :: "(string \<Rightarrow> string) \<Rightarrow> string \<times> json \<Rightarrow>
    getFeatureFlagRequest \<times> error option \<Rightarrow> getFeatureFlagRequest \<times> error option" where
  "memberGet foldName (name, v) (req, saved) =
     (case findField foldName [''key''] name of
        None \<Rightarrow> (req, saved)
      | Some f \<Rightarrow>
          (case storeString v (getFeatureFlagRequest.Key req, saved) of
             (s, saved') \<Rightarrow> (req\<lparr>getFeatureFlagRequest.Key := s\<rparr>, saved')))"

fun objectGet :: "(string \<Rightarrow> string) \<Rightarrow> (string \<times> json) list \<Rightarrow>
    getFeatureFlagRequest \<times> error option \<Rightarrow> getFeatureFlagRequest \<times> error option" where
  "objectGet foldName [] acc = acc"
| "objectGet foldName (m # ms) acc = objectGet foldName ms (memberGet foldName m acc)"

text \<open>The same for a \<^verbatim>\<open>setFeatureFlagRequest\<close>, with its fields tagged \<^verbatim>\<open>key\<close> and \<^verbatim>\<open>value\<close>.\<close>

fun memberSet :: "(string \<Rightarrow> string) \<Rightarrow> string \<times> json \<Rightarrow>
    setFeatureFlagRequest \<times> error option \<Rightarrow> setFeatureFlagRequest \<times> error option" where
  "memberSet foldName (name, v) (req, saved) =
     (case findField foldName [''key'', ''value''] name of
        None \<Rightarrow> (req, saved)
      | Some f \<Rightarrow>
          if f = ''key'' then
            (case storeString v (setFeatureFlagRequest.Key req, saved) of
               (s, saved') \<Rightarrow> (req\<lparr>setFeatureFlagRequest.Key := s\<rparr>, saved'))
          else
            (case storeBool v (setFeatureFlagRequest.Value req, saved) of
               (b, saved') \<Rightarrow> (req\<lparr>setFeatureFlagRequest.Value := b\<rparr>, saved')))"

fun objectSet :: "(string \<Rightarrow> string) \<Rightarrow> (string \<times> json) list \<Rightarrow>
    setFeatureFlagRequest \<times> error option \<Rightarrow> setFeatureFlagRequest \<times> error option" where
  "objectSet foldName [] acc = acc"
| "objectSet foldName (m # ms) acc = objectSet foldName ms (memberSet foldName m acc)"

text \<open>
  Storing a whole JSON value into the zero-valued struct \<^verbatim>\<open>var request ...\<close>: only an
  object or \<^verbatim>\<open>null\<close> fits a struct.
\<close>

definition unmarshalGet :: "(string \<Rightarrow> string) \<Rightarrow> json \<Rightarrow> error + getFeatureFlagRequest" where
  "unmarshalGet foldName v =
     (case v of
        JNull \<Rightarrow> Inr \<lparr>getFeatureFlagRequest.Key = ''''\<rparr>
      | JObject ms \<Rightarrow>
          (case objectGet foldName ms (\<lparr>getFeatureFlagRequest.Key = ''''\<rparr>, None) of
             (req, None) \<Rightarrow> Inr req
           | (req, Some err) \<Rightarrow> Inl err)
      | _ \<Rightarrow> Inl (UnmarshalTypeError (valueKind v)))"

definition unmarshalSet :: "(string \<Rightarrow> string) \<Rightarrow> json \<Rightarrow> error + setFeatureFlagRequest" where
  "unmarshalSet foldName v =
     (case v of
        JNull \<Rightarrow> Inr \<lparr>setFeatureFlagRequest.Key = '''', Value = False\<rparr>
      | JObject ms \<Rightarrow>
          (case objectSet foldName ms
                  (\<lparr>setFeatureFlagRequest.Key = '''', Value = False\<rparr>, None) of
             (req, None) \<Rightarrow> Inr req
           | (req, Some err) \<Rightarrow> Inl err)
      | _ \<Rightarrow> Inl (UnmarshalTypeError (valueKind v)))"

text \<open>
  \<^verbatim>\<open>if err := json.NewDecoder(r.Body).Decode(&request); err != nil { return nil, err };
  return request, nil\<close>. The context argument is ignored (\<^verbatim>\<open>_\<close>).
\<close>

definition decodeGetFeatureFlagRequest :: "(string \<Rightarrow> string) \<Rightarrow> 'c \<Rightarrow> body \<Rightarrow> error + any" where
  "decodeGetFeatureFlagRequest foldName ctx r =
     (case r of
        Unreadable \<Rightarrow> Inl ScanError
      | Scanned v \<Rightarrow>
          (case unmarshalGet foldName v of
             Inl err \<Rightarrow> Inl err
           | Inr request \<Rightarrow> Inr (AnyGetRequest request)))"

definition decodeSetFeatureFlagRequest :: "(string \<Rightarrow> string) \<Rightarrow> 'c \<Rightarrow> body \<Rightarrow> error + any" where
  "decodeSetFeatureFlagRequest foldName ctx r =
     (case r of
        Unreadable \<Rightarrow> Inl ScanError
      | Scanned v \<Rightarrow>
          (case unmarshalSet foldName v of
             Inl err \<Rightarrow> Inl err
           | Inr request \<Rightarrow> Inr (AnySetRequest request)))"

subsection \<open>Encoding responses and serving a request\<close>

text \<open>
  \<^verbatim>\<open>json.NewEncoder(w).Encode(response)\<close> writes the struct as an object with one member
  for each field, named by its tag, and returns \<^verbatim>\<open>nil\<close>: structs of strings and bools
  always encode.
\<close>

fun encodeResponse :: "'c \<Rightarrow> any \<Rightarrow> json \<times> error option" where
  "encodeResponse ctx (AnyGetRequest r) =
     (JObject [(''key'', JString (getFeatureFlagRequest.Key r))], None)"
| "encodeResponse ctx (AnySetRequest r) =
     (JObject [(''key'', JString (setFeatureFlagRequest.Key r)),
               (''value'', JBool (setFeatureFlagRequest.Value r))], None)"
| "encodeResponse ctx (AnyGetResponse r) =
     (JObject [(''value'', JBool (getFeatureFlagResponse.Value r))], None)"
| "encodeResponse ctx (AnySetResponse r) =
     (JObject [(''success'', JBool (Success r))], None)"

text \<open>
  What a handler built by \<^verbatim>\<open>kitHttp.NewServer(e, dec, enc)\<close> does with a request (go-kit's
  \<^verbatim>\<open>Server.ServeHTTP\<close> with no options, as \<^verbatim>\<open>main\<close> builds it): decode, and on an error
  answer with the error and return; call the endpoint, and on an error answer with the
  error and return; encode the response. A panic of the endpoint ends the request.
\<close>

datatype reply = Reply json | Failure error | Panic

definition ServeHTTP :: "('c, 's) endpoint \<Rightarrow> ('c \<Rightarrow> body \<Rightarrow> error + any) \<Rightarrow>
    ('c \<Rightarrow> any \<Rightarrow> json \<times> error option) \<Rightarrow> 'c \<Rightarrow> body \<Rightarrow> 's \<Rightarrow> reply \<times> 's" where
  "ServeHTTP e dec enc ctx r st =
     (case dec ctx r of
        Inl err \<Rightarrow> (Failure err, st)
      | Inr request \<Rightarrow>
          (case e ctx request st of
             Panics \<Rightarrow> (Panic, st)
           | Returns ((response, Some err), st') \<Rightarrow> (Failure err, st')
           | Returns ((response, None), st') \<Rightarrow>
               (case enc ctx response of
                  (out, None) \<Rightarrow> (Reply out, st')
                | (out, Some err) \<Rightarrow> (Failure err, st'))))"

section \<open>Properties of the store\<close>

lemma GetFeatureFlag_store [simp]:
  "snd (featureFlagService_GetFeatureFlag ctx key s) = s"
  by (simp add: featureFlagService_GetFeatureFlag_def split: option.split)

lemma GetFeatureFlag_error [simp]:
  "snd (fst (featureFlagService_GetFeatureFlag ctx key s)) = None"
  by (simp add: featureFlagService_GetFeatureFlag_def split: option.split)

lemma SetFeatureFlag_flags [simp]:
  "flags (snd (featureFlagService_SetFeatureFlag ctx key value s)) = (flags s)(key \<mapsto> value)"
  by (simp add: featureFlagService_SetFeatureFlag_def)

lemma runCall_other_key:
  "\<not> writes key c \<Longrightarrow> flags (runCall c s) key = flags s key"
  by (cases c) auto

lemma runCalls_other_key:
  "\<forall>c \<in> set cs. \<not> writes key c \<Longrightarrow> flags (runCalls cs s) key = flags s key"
  by (induction cs arbitrary: s) (simp_all add: runCall_other_key)

text \<open>
  C1 (default false): start from the empty store that \<^verbatim>\<open>main\<close> creates and run any
  sequence of calls none of which is a \<^verbatim>\<open>SetFeatureFlag\<close> of \<open>k\<close> (the empty sequence
  included). Then \<^verbatim>\<open>GetFeatureFlag(k)\<close> returns \<^verbatim>\<open>false\<close> with a \<^verbatim>\<open>nil\<close> error: the missing
  key is not reported as an error.
\<close>

theorem default_false:
  "\<forall>c \<in> set cs. \<not> writes k c \<Longrightarrow>
   featureFlagService_GetFeatureFlag ctx k (runCalls cs newFeatureFlagService) =
     ((False, None), runCalls cs newFeatureFlagService)"
proof -
  assume "\<forall>c \<in> set cs. \<not> writes k c"
  then have "flags (runCalls cs newFeatureFlagService) k = flags newFeatureFlagService k"
    by (rule runCalls_other_key)
  then have "flags (runCalls cs newFeatureFlagService) k = None"
    by (simp add: newFeatureFlagService_def)
  then show ?thesis
    by (simp add: featureFlagService_GetFeatureFlag_def)
qed

text \<open>
  At a concrete history: after \<^verbatim>\<open>SetFeatureFlag("alpha", true)\<close> and a read of
  \<^verbatim>\<open>"beta"\<close>, the key \<^verbatim>\<open>"beta"\<close> still reads \<^verbatim>\<open>false\<close>.
\<close>

theorem default_false_witness:
  "featureFlagService_GetFeatureFlag () ''beta''
     (runCalls [SetCall () ''alpha'' True, GetCall () ''beta''] newFeatureFlagService) =
     ((False, None), \<lparr>flags = [''alpha'' \<mapsto> True]\<rparr>)"
  using default_false [of "[SetCall () ''alpha'' True, GetCall () ''beta'']" "''beta''" "()"]
  by (simp add: featureFlagService_SetFeatureFlag_def newFeatureFlagService_def)

text \<open>
  C2 (write then read): after \<^verbatim>\<open>SetFeatureFlag(k, v)\<close> on any store, followed by any
  sequence of calls none of which is a \<^verbatim>\<open>SetFeatureFlag\<close> of \<open>k\<close>, \<^verbatim>\<open>GetFeatureFlag(k)\<close>
  returns exactly \<open>v\<close>, with a \<^verbatim>\<open>nil\<close> error.
\<close>

theorem write_then_read:
  "\<forall>c \<in> set cs. \<not> writes k c \<Longrightarrow>
   fst (featureFlagService_GetFeatureFlag ctx' k
         (runCalls cs (snd (featureFlagService_SetFeatureFlag ctx k v s)))) = (v, None)"
proof -
  assume "\<forall>c \<in> set cs. \<not> writes k c"
  then have "flags (runCalls cs (snd (featureFlagService_SetFeatureFlag ctx k v s))) k =
      flags (snd (featureFlagService_SetFeatureFlag ctx k v s)) k"
    by (rule runCalls_other_key)
  then have "flags (runCalls cs (snd (featureFlagService_SetFeatureFlag ctx k v s))) k = Some v"
    by simp
  then show ?thesis
    by (simp add: featureFlagService_GetFeatureFlag_def)
qed

text \<open>
  At a concrete history: \<^verbatim>\<open>"beta"\<close> is set to \<^verbatim>\<open>true\<close>, then read, then \<^verbatim>\<open>"alpha"\<close> is
  set to \<^verbatim>\<open>false\<close>; \<^verbatim>\<open>"beta"\<close> reads \<^verbatim>\<open>true\<close>.
\<close>

theorem write_then_read_witness:
  "fst (featureFlagService_GetFeatureFlag () ''beta''
         (runCalls [GetCall () ''beta'', SetCall () ''alpha'' False]
           (snd (featureFlagService_SetFeatureFlag () ''beta'' True newFeatureFlagService)))) =
     (True, None)"
  using write_then_read [of "[GetCall () ''beta'', SetCall () ''alpha'' False]" "''beta''"
      "()" "()" True newFeatureFlagService]
  by simp

text \<open>
  C3 (last write wins): \<^verbatim>\<open>SetFeatureFlag(k, v1)\<close>, then \<^verbatim>\<open>SetFeatureFlag(k, v2)\<close>, then
  \<^verbatim>\<open>GetFeatureFlag(k)\<close>, run one after the other on any store, reads \<open>v2\<close> with a
  \<^verbatim>\<open>nil\<close> error: the second write replaces the first.
\<close>

theorem last_write_wins:
  "fst (featureFlagService_GetFeatureFlag c3 k
         (snd (featureFlagService_SetFeatureFlag c2 k v2
           (snd (featureFlagService_SetFeatureFlag c1 k v1 s))))) = (v2, None)"
  by (simp add: featureFlagService_GetFeatureFlag_def featureFlagService_SetFeatureFlag_def)

text \<open>
  C4 (key independence): for distinct keys \<open>k1\<close> and \<open>k2\<close>, any value and any store,
  \<^verbatim>\<open>GetFeatureFlag(k2)\<close> returns the same after \<^verbatim>\<open>SetFeatureFlag(k1, v)\<close> as before it.
\<close>

theorem key_independence:
  "k2 \<noteq> k1 \<Longrightarrow>
   fst (featureFlagService_GetFeatureFlag ctx' k2
         (snd (featureFlagService_SetFeatureFlag ctx k1 v s))) =
   fst (featureFlagService_GetFeatureFlag ctx' k2 s)"
  by (simp add: featureFlagService_GetFeatureFlag_def featureFlagService_SetFeatureFlag_def
      split: option.split)

text \<open>
  At a concrete store: \<^verbatim>\<open>"beta"\<close> is \<^verbatim>\<open>true\<close>, and stays so when \<^verbatim>\<open>"alpha"\<close> is set to
  \<^verbatim>\<open>false\<close>.
\<close>

theorem key_independence_witness:
  "fst (featureFlagService_GetFeatureFlag () ''beta''
         (snd (featureFlagService_SetFeatureFlag () ''alpha'' False
                \<lparr>flags = [''beta'' \<mapsto> True]\<rparr>))) = (True, None) \<and>
   fst (featureFlagService_GetFeatureFlag () ''beta'' \<lparr>flags = [''beta'' \<mapsto> True]\<rparr>) =
     (True, None)"
  using key_independence [of "''beta''" "''alpha''" "()" "()" False
      "\<lparr>flags = [''beta'' \<mapsto> True]\<rparr>"]
  by (simp add: featureFlagService_GetFeatureFlag_def)

text \<open>
  C5 (pure read): \<^verbatim>\<open>GetFeatureFlag(k)\<close> leaves the store exactly as it found it, so a
  later \<^verbatim>\<open>GetFeatureFlag\<close> of any key returns what it would have returned before the call.
\<close>

theorem GetFeatureFlag_pure_read:
  "snd (featureFlagService_GetFeatureFlag c k s) = s \<and>
   fst (featureFlagService_GetFeatureFlag c' k' (snd (featureFlagService_GetFeatureFlag c k s))) =
   fst (featureFlagService_GetFeatureFlag c' k' s)"
  by simp

text \<open>
  C9 (the context is never consulted): with any two context values, each method returns
  the same results and leaves the same store.
\<close>

theorem ctx_independent:
  "featureFlagService_GetFeatureFlag c1 k s = featureFlagService_GetFeatureFlag c2 k s \<and>
   featureFlagService_SetFeatureFlag c1 k v s = featureFlagService_SetFeatureFlag c2 k v s"
  by (simp add: featureFlagService_GetFeatureFlag_def featureFlagService_SetFeatureFlag_def)

section \<open>Properties of the endpoints and handlers\<close>

lemma saveError_Some [simp]: "saveError err saved \<noteq> None"
  by (simp add: saveError_def split: option.split)

lemma saveError_saved [simp]: "saveError err (Some e) = Some e"
  by (simp add: saveError_def)

lemma storeString_keeps_error: "saved \<noteq> None \<Longrightarrow> snd (storeString v (s, saved)) \<noteq> None"
  by (cases v) auto

lemma storeBool_keeps_error: "saved \<noteq> None \<Longrightarrow> snd (storeBool v (b, saved)) \<noteq> None"
  by (cases v) auto

lemma storeBool_mismatch:
  "v \<noteq> JNull \<Longrightarrow> \<forall>x. v \<noteq> JBool x \<Longrightarrow> snd (storeBool v (b, saved)) \<noteq> None"
  by (cases v) auto

lemma memberSet_keeps_error:
  "snd acc \<noteq> None \<Longrightarrow> snd (memberSet foldName m acc) \<noteq> None"
proof -
  assume saved: "snd acc \<noteq> None"
  obtain name v where m: "m = (name, v)" by (cases m)
  obtain req e where acc: "acc = (req, Some e)" using saved by (cases acc) auto
  show ?thesis
    using storeString_keeps_error [of "Some e" v "setFeatureFlagRequest.Key req"]
      storeBool_keeps_error [of "Some e" v "setFeatureFlagRequest.Value req"]
    by (auto simp: m acc split: option.split prod.split)
qed

lemma objectSet_keeps_error:
  "snd acc \<noteq> None \<Longrightarrow> snd (objectSet foldName ms acc) \<noteq> None"
proof (induction ms arbitrary: acc)
  case Nil
  then show ?case by simp
next
  case (Cons m ms)
  have "snd (memberSet foldName m acc) \<noteq> None"
    using Cons.prems by (rule memberSet_keeps_error)
  then have "snd (objectSet foldName ms (memberSet foldName m acc)) \<noteq> None"
    by (rule Cons.IH)
  then show ?case by simp
qed

lemma findField_value [simp]: "findField foldName [''key'', ''value''] ''value'' = Some ''value''"
  by (simp add: findField_def)

lemma memberSet_mismatch:
  "v \<noteq> JNull \<Longrightarrow> \<forall>x. v \<noteq> JBool x \<Longrightarrow> snd (memberSet foldName (''value'', v) acc) \<noteq> None"
proof -
  assume v: "v \<noteq> JNull" "\<forall>x. v \<noteq> JBool x"
  obtain req saved where acc: "acc = (req, saved)" by (cases acc)
  show ?thesis
    using storeBool_mismatch [OF v, of "setFeatureFlagRequest.Value req" saved]
    by (auto simp: acc split: prod.split)
qed

lemma objectSet_mismatch:
  "(''value'', v) \<in> set ms \<Longrightarrow> v \<noteq> JNull \<Longrightarrow> \<forall>x. v \<noteq> JBool x \<Longrightarrow>
   snd (objectSet foldName ms acc) \<noteq> None"
proof (induction ms arbitrary: acc)
  case Nil
  then show ?case by simp
next
  case (Cons m ms)
  show ?case
  proof (cases "m = (''value'', v)")
    case True
    have "snd (memberSet foldName m acc) \<noteq> None"
      unfolding True using Cons.prems(2,3) by (rule memberSet_mismatch)
    then have "snd (objectSet foldName ms (memberSet foldName m acc)) \<noteq> None"
      by (rule objectSet_keeps_error)
    then show ?thesis by simp
  next
    case False
    with Cons.prems(1) have "(''value'', v) \<in> set ms" by simp
    then have "snd (objectSet foldName ms (memberSet foldName m acc)) \<noteq> None"
      using Cons.prems(2,3) by (rule Cons.IH)
    then show ?thesis by simp
  qed
qed

lemma decodeSet_mismatch:
  "(''value'', v) \<in> set ms \<Longrightarrow> v \<noteq> JNull \<Longrightarrow> \<forall>x. v \<noteq> JBool x \<Longrightarrow>
   \<exists>err. decodeSetFeatureFlagRequest foldName ctx (Scanned (JObject ms)) = Inl err"
  using objectSet_mismatch [of v ms foldName "(\<lparr>setFeatureFlagRequest.Key = '''', Value = False\<rparr>, None)"]
  by (auto simp: decodeSetFeatureFlagRequest_def unmarshalSet_def split: prod.split option.split)

lemma objectGet_no_member:
  "\<forall>(name, v) \<in> set ms. findField foldName [''key''] name = None \<Longrightarrow>
   objectGet foldName ms acc = acc"
  by (induction ms arbitrary: acc) (auto split: prod.split)

lemma decodeGet_no_member:
  "\<forall>(name, v) \<in> set ms. findField foldName [''key''] name = None \<Longrightarrow>
   decodeGetFeatureFlagRequest foldName ctx (Scanned (JObject ms)) =
     Inr (AnyGetRequest \<lparr>getFeatureFlagRequest.Key = ''''\<rparr>)"
  by (simp add: decodeGetFeatureFlagRequest_def unmarshalGet_def objectGet_no_member)

lemma ServeHTTP_decode_error:
  "dec ctx r = Inl err \<Longrightarrow> ServeHTTP e dec enc ctx r st = (Failure err, st)"
  by (simp add: ServeHTTP_def)

lemma decodeSet_request:
  "decodeSetFeatureFlagRequest foldName ctx r = Inr request \<Longrightarrow> \<exists>req. request = AnySetRequest req"
  by (auto simp: decodeSetFeatureFlagRequest_def split: body.splits sum.splits)

lemma decodeGet_request:
  "decodeGetFeatureFlagRequest foldName ctx r = Inr request \<Longrightarrow> \<exists>req. request = AnyGetRequest req"
  by (auto simp: decodeGetFeatureFlagRequest_def split: body.splits sum.splits)

lemma get_handler_store:
  "snd (ServeHTTP (makeGetFeatureFlagEndpoint featureFlagService_methods)
         (decodeGetFeatureFlagRequest foldName) encodeResponse ctx r s) = s"
proof (cases "decodeGetFeatureFlagRequest foldName ctx r")
  case (Inl err)
  then show ?thesis by (simp add: ServeHTTP_def)
next
  case (Inr request)
  then obtain req where "request = AnyGetRequest req"
    using decodeGet_request [OF Inr] by auto
  with Inr show ?thesis
    by (simp add: ServeHTTP_def makeGetFeatureFlagEndpoint_def featureFlagService_methods_def
        featureFlagService_GetFeatureFlag_def split: option.split)
qed

text \<open>
  C6 (no failure modes): for every key, the empty string included, every value and every
  store, \<^verbatim>\<open>GetFeatureFlag\<close> and \<^verbatim>\<open>SetFeatureFlag\<close> return a \<^verbatim>\<open>nil\<close> error. The set endpoint,
  over any implementation of the service, returns (it does not panic) the response with
  \<^verbatim>\<open>Success: true\<close> and a \<^verbatim>\<open>nil\<close> error for every request of type
  \<^verbatim>\<open>setFeatureFlagRequest\<close>, and the set handler replies \<^verbatim>\<open>{"success": true}\<close> to every
  body that decodes.
\<close>

theorem operations_infallible:
  fixes svc :: "('c, 's) FeatureFlagService"
  shows
  "snd (fst (featureFlagService_GetFeatureFlag ctx key s)) = None \<and>
   fst (featureFlagService_SetFeatureFlag ctx key value s) = None \<and>
   makeSetFeatureFlagEndpoint svc ctx (AnySetRequest req) st =
     Returns ((AnySetResponse \<lparr>Success = True\<rparr>, None),
       snd (SetFeatureFlag svc ctx (setFeatureFlagRequest.Key req)
             (setFeatureFlagRequest.Value req) st)) \<and>
   (decodeSetFeatureFlagRequest foldName ctx r = Inr request \<longrightarrow>
      fst (ServeHTTP (makeSetFeatureFlagEndpoint svc) (decodeSetFeatureFlagRequest foldName)
            encodeResponse ctx r st) = Reply (JObject [(''success'', JBool True)]))"
proof -
  have endpoint: "makeSetFeatureFlagEndpoint svc ctx (AnySetRequest q) st =
     Returns ((AnySetResponse \<lparr>Success = True\<rparr>, None),
       snd (SetFeatureFlag svc ctx (setFeatureFlagRequest.Key q)
             (setFeatureFlagRequest.Value q) st))" for q
    by (simp add: makeSetFeatureFlagEndpoint_def split: prod.split)
  have handler: "fst (ServeHTTP (makeSetFeatureFlagEndpoint svc)
        (decodeSetFeatureFlagRequest foldName) encodeResponse ctx r st) =
      Reply (JObject [(''success'', JBool True)])"
    if dec: "decodeSetFeatureFlagRequest foldName ctx r = Inr request"
  proof -
    obtain q where "request = AnySetRequest q"
      using decodeSet_request [OF dec] by auto
    with dec show ?thesis
      by (simp add: ServeHTTP_def endpoint)
  qed
  show ?thesis
    using endpoint handler
    by (simp add: featureFlagService_SetFeatureFlag_def)
qed

text \<open>
  On the empty store, the body \<^verbatim>\<open>{"key": "", "value": true}\<close> is answered with
  \<^verbatim>\<open>{"success": true}\<close>, and the empty key is set.
\<close>

theorem operations_infallible_witness:
  "ServeHTTP (makeSetFeatureFlagEndpoint featureFlagService_methods)
     (decodeSetFeatureFlagRequest foldASCII) encodeResponse ()
     (Scanned (JObject [(''key'', JString ''''), (''value'', JBool True)]))
     newFeatureFlagService =
     (Reply (JObject [(''success'', JBool True)]), \<lparr>flags = ['''' \<mapsto> True]\<rparr>)"
proof -
  let ?r = "Scanned (JObject [(''key'', JString ''''), (''value'', JBool True)])"
  have dec: "decodeSetFeatureFlagRequest foldASCII () ?r =
      Inr (AnySetRequest \<lparr>setFeatureFlagRequest.Key = '''', Value = True\<rparr>)"
    by (simp add: decodeSetFeatureFlagRequest_def unmarshalSet_def findField_def)
  have st: "snd (ServeHTTP (makeSetFeatureFlagEndpoint featureFlagService_methods)
     (decodeSetFeatureFlagRequest foldASCII) encodeResponse () ?r newFeatureFlagService) =
     \<lparr>flags = ['''' \<mapsto> True]\<rparr>"
    by (simp add: ServeHTTP_def dec makeSetFeatureFlagEndpoint_def featureFlagService_methods_def
        featureFlagService_SetFeatureFlag_def newFeatureFlagService_def)
  show ?thesis
    using dec st
      operations_infallible [of "()" "''''" newFeatureFlagService True featureFlagService_methods
        "\<lparr>setFeatureFlagRequest.Key = '''', Value = True\<rparr>" newFeatureFlagService foldASCII ?r
        "AnySetRequest \<lparr>setFeatureFlagRequest.Key = '''', Value = True\<rparr>"]
    by (simp add: prod_eq_iff)
qed

text \<open>
  C7 as the specification states it fails. The body \<^verbatim>\<open>{}\<close>, which omits \<^verbatim>\<open>key\<close>, is
  decoded without error into the request with the empty key, and the get handler serves
  it. The body \<^verbatim>\<open>{"key": "beta", "value": null}\<close>, whose \<^verbatim>\<open>value\<close> is not a boolean, is
  decoded without error too, and the set handler stores \<^verbatim>\<open>false\<close> under \<^verbatim>\<open>"beta"\<close>.
\<close>

theorem malformed_request_counterexample:
  "decodeGetFeatureFlagRequest foldASCII () (Scanned (JObject [])) =
     Inr (AnyGetRequest \<lparr>getFeatureFlagRequest.Key = ''''\<rparr>) \<and>
   ServeHTTP (makeGetFeatureFlagEndpoint featureFlagService_methods)
     (decodeGetFeatureFlagRequest foldASCII) encodeResponse () (Scanned (JObject []))
     newFeatureFlagService = (Reply (JObject [(''value'', JBool False)]), newFeatureFlagService) \<and>
   ServeHTTP (makeSetFeatureFlagEndpoint featureFlagService_methods)
     (decodeSetFeatureFlagRequest foldASCII) encodeResponse ()
     (Scanned (JObject [(''key'', JString ''beta''), (''value'', JNull)]))
     newFeatureFlagService =
     (Reply (JObject [(''success'', JBool True)]), \<lparr>flags = [''beta'' \<mapsto> False]\<rparr>)"
  by (simp add: ServeHTTP_def decodeGetFeatureFlagRequest_def unmarshalGet_def
      decodeSetFeatureFlagRequest_def unmarshalSet_def findField_def
      makeGetFeatureFlagEndpoint_def makeSetFeatureFlagEndpoint_def featureFlagService_methods_def
      featureFlagService_GetFeatureFlag_def featureFlagService_SetFeatureFlag_def
      newFeatureFlagService_def)

lemma memberGet_null: "memberGet foldName (name, JNull) acc = acc"
  by (cases acc) (simp split: option.split)

lemma memberSet_null: "memberSet foldName (name, JNull) acc = acc"
  by (cases acc) (simp split: option.split)

lemma objectGet_drop_null:
  "objectGet foldName (filter (\<lambda>m. snd m \<noteq> JNull) ms) acc = objectGet foldName ms acc"
proof (induction ms arbitrary: acc)
  case Nil
  then show ?case by simp
next
  case (Cons m ms)
  obtain name w where m: "m = (name, w)" by (cases m)
  show ?case
    by (cases "w = JNull") (simp_all add: m memberGet_null Cons.IH)
qed

lemma objectSet_drop_null:
  "objectSet foldName (filter (\<lambda>m. snd m \<noteq> JNull) ms) acc = objectSet foldName ms acc"
proof (induction ms arbitrary: acc)
  case Nil
  then show ?case by simp
next
  case (Cons m ms)
  obtain name w where m: "m = (name, w)" by (cases m)
  show ?case
    by (cases "w = JNull") (simp_all add: m memberSet_null Cons.IH)
qed

lemma decodeGet_drop_null:
  "decodeGetFeatureFlagRequest foldName ctx (Scanned (JObject (filter (\<lambda>m. snd m \<noteq> JNull) ms))) =
   decodeGetFeatureFlagRequest foldName ctx (Scanned (JObject ms))"
  by (simp add: decodeGetFeatureFlagRequest_def unmarshalGet_def objectGet_drop_null)

lemma decodeSet_drop_null:
  "decodeSetFeatureFlagRequest foldName ctx (Scanned (JObject (filter (\<lambda>m. snd m \<noteq> JNull) ms))) =
   decodeSetFeatureFlagRequest foldName ctx (Scanned (JObject ms))"
  by (simp add: decodeSetFeatureFlagRequest_def unmarshalSet_def objectSet_drop_null)

lemma get_handler_no_member:
  "\<forall>(name, w) \<in> set ms. findField foldName [''key''] name = None \<Longrightarrow>
   ServeHTTP (makeGetFeatureFlagEndpoint svc) (decodeGetFeatureFlagRequest foldName)
     encodeResponse ctx (Scanned (JObject ms)) st =
     (Reply (JObject [(''value'', JBool (fst (fst (GetFeatureFlag svc ctx '''' st))))]),
      snd (GetFeatureFlag svc ctx '''' st))"
  by (simp add: ServeHTTP_def decodeGet_no_member makeGetFeatureFlagEndpoint_def
      split: prod.split)

text \<open>
  C7, amended. Whenever decoding the body fails, the handler answers with the decode
  error and the state is the one it found, whatever the implementation of the service
  does when called: the service is not invoked. A set body with a member named \<^verbatim>\<open>value\<close>
  that is neither a boolean nor \<^verbatim>\<open>null\<close> fails to decode. A get body none of whose
  members matches \<^verbatim>\<open>key\<close> does not fail: it decodes into the request with the empty key,
  and the handler replies with the value that \<^verbatim>\<open>GetFeatureFlag\<close> of the empty key returns
  and leaves the state that call leaves. The get handler over the store leaves it as it
  found it on every body. A member given as \<^verbatim>\<open>null\<close> leaves its field as it is: a body
  decodes to the same result with and without its \<^verbatim>\<open>null\<close> members.
\<close>

theorem decode_failure_rejected:
  fixes svc :: "('c, 's) FeatureFlagService"
  shows
  "(decodeGetFeatureFlagRequest foldName ctx r = Inl err \<longrightarrow>
      ServeHTTP (makeGetFeatureFlagEndpoint svc) (decodeGetFeatureFlagRequest foldName)
        encodeResponse ctx r st = (Failure err, st)) \<and>
   (decodeSetFeatureFlagRequest foldName ctx r = Inl err \<longrightarrow>
      ServeHTTP (makeSetFeatureFlagEndpoint svc) (decodeSetFeatureFlagRequest foldName)
        encodeResponse ctx r st = (Failure err, st)) \<and>
   ((''value'', v) \<in> set ms \<and> v \<noteq> JNull \<and> (\<forall>x. v \<noteq> JBool x) \<longrightarrow>
      (\<exists>e. decodeSetFeatureFlagRequest foldName ctx (Scanned (JObject ms)) = Inl e)) \<and>
   ((\<forall>(name, w) \<in> set ks. findField foldName [''key''] name = None) \<longrightarrow>
      decodeGetFeatureFlagRequest foldName ctx (Scanned (JObject ks)) =
        Inr (AnyGetRequest \<lparr>getFeatureFlagRequest.Key = ''''\<rparr>) \<and>
      ServeHTTP (makeGetFeatureFlagEndpoint svc) (decodeGetFeatureFlagRequest foldName)
        encodeResponse ctx (Scanned (JObject ks)) st =
        (Reply (JObject [(''value'', JBool (fst (fst (GetFeatureFlag svc ctx '''' st))))]),
         snd (GetFeatureFlag svc ctx '''' st)) \<and>
      ServeHTTP (makeGetFeatureFlagEndpoint featureFlagService_methods)
        (decodeGetFeatureFlagRequest foldName) encodeResponse ctx (Scanned (JObject ks)) s =
        (Reply (JObject [(''value'',
           JBool (fst (fst (featureFlagService_GetFeatureFlag ctx '''' s))))]), s)) \<and>
   snd (ServeHTTP (makeGetFeatureFlagEndpoint featureFlagService_methods)
         (decodeGetFeatureFlagRequest foldName) encodeResponse ctx r s) = s \<and>
   decodeGetFeatureFlagRequest foldName ctx
       (Scanned (JObject (filter (\<lambda>m. snd m \<noteq> JNull) ns))) =
     decodeGetFeatureFlagRequest foldName ctx (Scanned (JObject ns)) \<and>
   decodeSetFeatureFlagRequest foldName ctx
       (Scanned (JObject (filter (\<lambda>m. snd m \<noteq> JNull) ns))) =
     decodeSetFeatureFlagRequest foldName ctx (Scanned (JObject ns))"
proof -
  have served: "ServeHTTP (makeGetFeatureFlagEndpoint featureFlagService_methods)
        (decodeGetFeatureFlagRequest foldName) encodeResponse ctx (Scanned (JObject ks)) s =
        (Reply (JObject [(''value'',
           JBool (fst (fst (featureFlagService_GetFeatureFlag ctx '''' s))))]), s)"
    if "\<forall>(name, w) \<in> set ks. findField foldName [''key''] name = None"
    using get_handler_no_member [OF that, of featureFlagService_methods ctx s]
    by (simp add: featureFlagService_methods_def)
  show ?thesis
    using ServeHTTP_decode_error [of "decodeGetFeatureFlagRequest foldName" ctx r err
        "makeGetFeatureFlagEndpoint svc" encodeResponse st]
      ServeHTTP_decode_error [of "decodeSetFeatureFlagRequest foldName" ctx r err
        "makeSetFeatureFlagEndpoint svc" encodeResponse st]
      decodeSet_mismatch [of v ms foldName ctx] decodeGet_no_member [of ks foldName ctx]
      get_handler_no_member [of ks foldName svc ctx st] served
      get_handler_store [of foldName ctx r s]
      decodeGet_drop_null [of foldName ctx ns] decodeSet_drop_null [of foldName ctx ns]
    by blast
qed

text \<open>
  On a store where \<^verbatim>\<open>""\<close> and \<^verbatim>\<open>"beta"\<close> are \<^verbatim>\<open>true\<close>: the get body \<^verbatim>\<open>{"key": 7}\<close> and the
  set body \<^verbatim>\<open>{"key": "beta", "value": "no"}\<close> are rejected with a type error and the store
  is unchanged; the get body \<^verbatim>\<open>{"value": true}\<close> decodes into the request with the empty
  key and is answered \<^verbatim>\<open>{"value": true}\<close>, the value of the empty key; the set body
  \<^verbatim>\<open>{"value": true, "value": null}\<close> decodes as \<^verbatim>\<open>{"value": true}\<close> does.
\<close>

theorem decode_failure_rejected_witness:
  "ServeHTTP (makeGetFeatureFlagEndpoint featureFlagService_methods)
     (decodeGetFeatureFlagRequest foldASCII) encodeResponse ()
     (Scanned (JObject [(''key'', JNumber ''7'')])) \<lparr>flags = ['''' \<mapsto> True, ''beta'' \<mapsto> True]\<rparr> =
     (Failure (UnmarshalTypeError ''number''), \<lparr>flags = ['''' \<mapsto> True, ''beta'' \<mapsto> True]\<rparr>) \<and>
   ServeHTTP (makeSetFeatureFlagEndpoint featureFlagService_methods)
     (decodeSetFeatureFlagRequest foldASCII) encodeResponse ()
     (Scanned (JObject [(''key'', JString ''beta''), (''value'', JString ''no'')]))
     \<lparr>flags = ['''' \<mapsto> True, ''beta'' \<mapsto> True]\<rparr> =
     (Failure (UnmarshalTypeError ''string''), \<lparr>flags = ['''' \<mapsto> True, ''beta'' \<mapsto> True]\<rparr>) \<and>
   decodeGetFeatureFlagRequest foldASCII () (Scanned (JObject [(''value'', JBool True)])) =
     Inr (AnyGetRequest \<lparr>getFeatureFlagRequest.Key = ''''\<rparr>) \<and>
   ServeHTTP (makeGetFeatureFlagEndpoint featureFlagService_methods)
     (decodeGetFeatureFlagRequest foldASCII) encodeResponse ()
     (Scanned (JObject [(''value'', JBool True)]))
     \<lparr>flags = ['''' \<mapsto> True, ''beta'' \<mapsto> True]\<rparr> =
     (Reply (JObject [(''value'', JBool True)]), \<lparr>flags = ['''' \<mapsto> True, ''beta'' \<mapsto> True]\<rparr>) \<and>
   decodeSetFeatureFlagRequest foldASCII ()
     (Scanned (JObject [(''value'', JBool True), (''value'', JNull)])) =
     Inr (AnySetRequest \<lparr>setFeatureFlagRequest.Key = '''', Value = True\<rparr>)"
proof -
  let ?st = "\<lparr>flags = ['''' \<mapsto> True, ''beta'' \<mapsto> True]\<rparr>"
  let ?ms = "[(''key'', JString ''beta''), (''value'', JString ''no'')]"
  let ?ks = "[(''value'', JBool True)]"
  let ?ns = "[(''value'', JBool True), (''value'', JNull)]"
  have g: "decodeGetFeatureFlagRequest foldASCII () (Scanned (JObject [(''key'', JNumber ''7'')])) =
      Inl (UnmarshalTypeError ''number'')"
    by (simp add: decodeGetFeatureFlagRequest_def unmarshalGet_def findField_def saveError_def)
  have s: "decodeSetFeatureFlagRequest foldASCII () (Scanned (JObject ?ms)) =
      Inl (UnmarshalTypeError ''string'')"
    by (simp add: decodeSetFeatureFlagRequest_def unmarshalSet_def findField_def saveError_def)
  have m: "(''value'', JString ''no'') \<in> set ?ms \<and> JString ''no'' \<noteq> JNull \<and>
      (\<forall>x. JString ''no'' \<noteq> JBool x)"
    by simp
  have n: "\<forall>(name, w) \<in> set ?ks. findField foldASCII [''key''] name = None"
    by (simp add: findField_def foldASCII_def)
  have v: "fst (fst (featureFlagService_GetFeatureFlag () '''' ?st)) = True"
    by (simp add: featureFlagService_GetFeatureFlag_def)
  have d: "decodeSetFeatureFlagRequest foldASCII () (Scanned (JObject ?ks)) =
      Inr (AnySetRequest \<lparr>setFeatureFlagRequest.Key = '''', Value = True\<rparr>)"
    by (simp add: decodeSetFeatureFlagRequest_def unmarshalSet_def findField_def)
  show ?thesis
    using g s m n v d
      decode_failure_rejected [where foldName = foldASCII and ctx = "()"
        and r = "Scanned (JObject [(''key'', JNumber ''7'')])"
        and err = "UnmarshalTypeError ''number''" and svc = featureFlagService_methods
        and st = ?st and v = "JString ''no''" and ms = ?ms and ks = ?ks and s = ?st
        and ns = ?ns]
      decode_failure_rejected [where foldName = foldASCII and ctx = "()"
        and r = "Scanned (JObject ?ms)"
        and err = "UnmarshalTypeError ''string''" and svc = featureFlagService_methods
        and st = ?st and v = "JString ''no''" and ms = ?ms and ks = ?ks and s = ?st
        and ns = ?ns]
    by simp
qed

text \<open>
  C10 (the get endpoint discards the service's error): whatever value \<open>val\<close> and error
  \<open>err\<close>, \<^verbatim>\<open>nil\<close> or not, the service's \<^verbatim>\<open>GetFeatureFlag\<close> returns, the endpoint returns the
  response with \<^verbatim>\<open>Value: val\<close> and a \<^verbatim>\<open>nil\<close> error.
\<close>

theorem get_endpoint_discards_error:
  "GetFeatureFlag svc ctx (getFeatureFlagRequest.Key req) st = ((val, err), st') \<Longrightarrow>
   makeGetFeatureFlagEndpoint svc ctx (AnyGetRequest req) st =
     Returns ((AnyGetResponse \<lparr>getFeatureFlagResponse.Value = val\<rparr>, None), st')"
  by (simp add: makeGetFeatureFlagEndpoint_def)

text \<open>
  With a service whose read always fails with an error next to the value \<^verbatim>\<open>true\<close> (and
  counts its calls), the endpoint answers \<^verbatim>\<open>Value: true\<close> and \<^verbatim>\<open>nil\<close>.
\<close>

theorem get_endpoint_discards_error_witness:
  "makeGetFeatureFlagEndpoint
     \<lparr>GetFeatureFlag = (\<lambda>c k n. ((True, Some (OtherError ''backend down'')), Suc n)),
      SetFeatureFlag = (\<lambda>c k v n. (Some (OtherError ''read only''), n))\<rparr>
     () (AnyGetRequest \<lparr>getFeatureFlagRequest.Key = ''beta''\<rparr>) (0::nat) =
     Returns ((AnyGetResponse \<lparr>getFeatureFlagResponse.Value = True\<rparr>, None), 1)"
  using get_endpoint_discards_error [of
      "\<lparr>GetFeatureFlag = (\<lambda>c k n. ((True, Some (OtherError ''backend down'')), Suc n)),
        SetFeatureFlag = (\<lambda>c k v n. (Some (OtherError ''read only''), n))\<rparr>"
      "()" "\<lparr>getFeatureFlagRequest.Key = ''beta''\<rparr>" "0::nat" True
      "Some (OtherError ''backend down'')" 1]
  by simp

end
